theory Spec2Isabelle
  imports Main "HOL-Library.Word"
begin

section \<open>The EMCA data API: path data store and heatmap state machine\<close>

text \<open>
  A shallow embedding of \<^verbatim>\<open>server/include/emca/dataapi.h\<close>. The class
  \<^verbatim>\<open>DataApi\<close> becomes a record of its data members, every member function that is
  defined inline in the header becomes a function on that record, and an exception
  becomes a value. The header only declares \<^verbatim>\<open>get_current_id\<close>, the cursor
  setters, \<^verbatim>\<open>HeatmapApi::reset\<close>, \<^verbatim>\<open>finalize\<close> and
  \<^verbatim>\<open>addSample\<close>, and it includes \<^verbatim>\<open>pathdata.h\<close> and
  \<^verbatim>\<open>heatmapdata.h\<close> without showing them; what is needed of those is modelled
  from the specification and marked as such.
\<close>

subsection \<open>Machine integers and exceptions\<close>

text \<open>\<^verbatim>\<open>uint32_t\<close>: arithmetic wraps around modulo \<open>2 ^ 32\<close>.\<close>

type_synonym uint32_t = "32 word"

text \<open>
  The two exceptions of the header: \<^verbatim>\<open>std::out_of_range\<close>, thrown by
  \<^verbatim>\<open>std::vector::at\<close> (the specification's \<open>OutOfRange\<close>), and
  \<^verbatim>\<open>std::logic_error\<close> with its message, thrown by
  \<^verbatim>\<open>getHeatmapData\<close> (the specification's \<open>NotReadyError\<close>).
\<close>

datatype exception = out_of_range | logic_error string

text \<open>
  A member function that mutates the object either returns, leaving the object in a new
  state, or throws, leaving the object in the state it had at the throw.
\<close>

datatype 's outcome = Returned 's | Thrown exception 's

text \<open>
  \<^verbatim>\<open>std::vector::at\<close> with a \<^verbatim>\<open>uint32_t\<close> argument: the index is widened to
  \<^verbatim>\<open>size_t\<close> and compared with the size.
\<close>

definition vector_at :: "'a list \<Rightarrow> uint32_t \<Rightarrow> exception + 'a" where
  "vector_at v i = (if unat i < length v then Inr (v ! unat i) else Inl out_of_range)"

subsection \<open>Path records\<close>

text \<open>
  The value arguments of the four overloads of \<^verbatim>\<open>addPathData\<close> and
  \<^verbatim>\<open>addIntersectionData\<close>: one to four components of one type \<open>'t\<close>
  (a fundamental type; the one-component overload also takes \<^verbatim>\<open>std::string\<close>).
\<close>

datatype 't components =
  Val1 't
| Val2 't 't
| Val3 't 't 't
| Val4 't 't 't 't

text \<open>
  Modelled from the spec: \<^verbatim>\<open>pathdata.h\<close> is missing. An Attribute Bag (section 3
  of the specification) is an append-only sequence of named values of one to four
  components; a repeated name appends one more entry.
\<close>

type_synonym 't attribute_bag = "(string \<times> 't components) list"

text \<open>
  Modelled from the spec: the Intersection Record of the missing \<^verbatim>\<open>pathdata.h\<close>,
  one bounce of a path, with its Attribute Bag. Its position, estimates and visibility
  flag are floating-point and boolean fields that \<^verbatim>\<open>addIntersectionData\<close> does not
  touch; they are left out.
\<close>

record 't IntersectionData =
  intersection_attributes :: "'t attribute_bag"

text \<open>
  Modelled from the spec: the Path Record of the missing \<^verbatim>\<open>pathdata.h\<close>, with its
  Attribute Bag and its sequence of Intersection Records ordered by depth. Its origin and
  final estimate are floating-point fields that \<^verbatim>\<open>addPathData\<close> does not touch; they
  are left out.
\<close>

record 't PathData =
  path_attributes :: "'t attribute_bag"
  m_intersections :: "'t IntersectionData list"

text \<open>
  Modelled from the spec: the records as the missing default constructors leave them,
  with no attribute and no intersection ("empty Path Records").
\<close>

definition empty_IntersectionData :: "'t IntersectionData" where
  "empty_IntersectionData = \<lparr>intersection_attributes = []\<rparr>"

definition empty_PathData :: "'t PathData" where
  "empty_PathData = \<lparr>path_attributes = [], m_intersections = []\<rparr>"

text \<open>
  Modelled from the spec: \<^verbatim>\<open>PathData::add\<close> (missing with \<^verbatim>\<open>pathdata.h\<close>)
  appends the named value to the Path Record's Attribute Bag.
\<close>

definition PathData_add :: "string \<Rightarrow> 't components \<Rightarrow> 't PathData \<Rightarrow> 't PathData" where
  "PathData_add s val p = p\<lparr>path_attributes := path_attributes p @ [(s, val)]\<rparr>"

text \<open>
  Modelled from the spec: \<^verbatim>\<open>IntersectionData::add\<close> (missing with
  \<^verbatim>\<open>pathdata.h\<close>) appends the named value to the Intersection Record's Attribute Bag.
\<close>

definition IntersectionData_add ::
  "string \<Rightarrow> 't components \<Rightarrow> 't IntersectionData \<Rightarrow> 't IntersectionData" where
  "IntersectionData_add s val i = i\<lparr>intersection_attributes := intersection_attributes i @ [(s, val)]\<rparr>"

text \<open>
  Modelled from the spec: \<^verbatim>\<open>PathData::intersectionAt\<close> (missing with
  \<^verbatim>\<open>pathdata.h\<close>) gives access to the Intersection Record of a depth, which is
  "created lazily per depth the first time the renderer reports data for that depth".
  The C++ function returns a reference that the caller then writes through; the model takes
  the write \<open>f\<close> as an argument. The sequence is extended with empty records up to the
  depth when it is too short.
\<close>

definition intersectionAt ::
  "uint32_t \<Rightarrow> ('t IntersectionData \<Rightarrow> 't IntersectionData) \<Rightarrow> 't PathData \<Rightarrow> 't PathData" where
  "intersectionAt depthIdx f p =
     (let n = unat depthIdx;
          xs = m_intersections p;
          ys = (if n < length xs then xs
                else xs @ replicate (Suc n - length xs) empty_IntersectionData)
      in p\<lparr>m_intersections := ys[n := f (ys ! n)]\<rparr>)"

subsection \<open>The path data store\<close>

text \<open>The data members of \<^verbatim>\<open>DataApi\<close> (lines 170 to 176 of the header).\<close>

record 't DataApi =
  m_paths :: "'t PathData list"
  m_height :: uint32_t
  m_width :: uint32_t
  m_sampleCount :: uint32_t
  m_x :: uint32_t
  m_y :: uint32_t
  m_currentSampleIdx :: uint32_t
  m_currentDepthIdx :: uint32_t
  m_isCollecting :: bool

text \<open>
  The implicitly defined constructor applies the default member initialisers: the two
  cursors start at \<^verbatim>\<open>-1U\<close>, collection is off, the vector is empty. The five
  members without an initialiser are indeterminate; the model takes their values as
  arguments.
\<close>

definition DataApi_new ::
  "uint32_t \<Rightarrow> uint32_t \<Rightarrow> uint32_t \<Rightarrow> uint32_t \<Rightarrow> uint32_t \<Rightarrow> 't DataApi" where
  "DataApi_new h w c x y =
     \<lparr>m_paths = [], m_height = h, m_width = w, m_sampleCount = c, m_x = x, m_y = y,
      m_currentSampleIdx = - 1, m_currentDepthIdx = - 1, m_isCollecting = False\<rparr>"

text \<open>
  Modelled from the spec: the header declares \<^verbatim>\<open>get_current_id\<close> with
  \<^verbatim>\<open>uint32_t\<close> arguments and result and documents the layout
  \<^verbatim>\<open>(x,y,c) -> y*(W*C) + x*C + c\<close>; the body is missing. The specification gives
  \<open>id(x, y, c) = y\<cdot>(W\<cdot>C) + x\<cdot>C + c\<close> with \<open>W\<close> the image width and \<open>C\<close> the
  per-pixel sample count. The arithmetic is that of \<^verbatim>\<open>uint32_t\<close>.
\<close>

definition get_current_id :: "'t DataApi \<Rightarrow> uint32_t \<Rightarrow> uint32_t \<Rightarrow> uint32_t \<Rightarrow> uint32_t" where
  "get_current_id d x y c = y * (m_width d * m_sampleCount d) + x * m_sampleCount d + c"

text \<open>
  \<^verbatim>\<open>addPathData\<close>, lines 60 to 82: the four overloads differ only in the number of
  value components.
\<close>

definition addPathData :: "string \<Rightarrow> 't components \<Rightarrow> 't DataApi \<Rightarrow> 't DataApi outcome" where
  "addPathData s val d =
     (if m_isCollecting d then
        (let i = get_current_id d (m_x d) (m_y d) (m_currentSampleIdx d) in
         case vector_at (m_paths d) i of
           Inl e \<Rightarrow> Thrown e d
         | Inr p \<Rightarrow> Returned (d\<lparr>m_paths := (m_paths d)[unat i := PathData_add s val p]\<rparr>))
      else Returned d)"

text \<open>\<^verbatim>\<open>addIntersectionData\<close>, lines 84 to 106.\<close>

definition addIntersectionData ::
  "string \<Rightarrow> 't components \<Rightarrow> 't DataApi \<Rightarrow> 't DataApi outcome" where
  "addIntersectionData s val d =
     (if m_isCollecting d \<and> m_currentDepthIdx d \<noteq> - 1 then
        (let i = get_current_id d (m_x d) (m_y d) (m_currentSampleIdx d) in
         case vector_at (m_paths d) i of
           Inl e \<Rightarrow> Thrown e d
         | Inr p \<Rightarrow>
             Returned (d\<lparr>m_paths := (m_paths d)
               [unat i := intersectionAt (m_currentDepthIdx d) (IntersectionData_add s val) p]\<rparr>))
      else Returned d)"

text \<open>Lines 112 to 114 and 165.\<close>

definition enable :: "'t DataApi \<Rightarrow> 't DataApi" where
  "enable d = d\<lparr>m_isCollecting := True\<rparr>"

definition disable :: "'t DataApi \<Rightarrow> 't DataApi" where
  "disable d = d\<lparr>m_isCollecting := False\<rparr>"

definition isCollecting :: "'t DataApi \<Rightarrow> bool" where
  "isCollecting d = m_isCollecting d"

definition clear :: "'t DataApi \<Rightarrow> 't DataApi" where
  "clear d = d\<lparr>m_paths := []\<rparr>"




subsection \<open>The heatmap engine's state machine\<close>

text \<open>
  The data members of \<^verbatim>\<open>DataApi::HeatmapApi\<close> (lines 148 to 159). The element type
  \<^verbatim>\<open>HeatmapData\<close> comes from the missing \<^verbatim>\<open>heatmapdata.h\<close> and stays a type
  parameter \<open>'h\<close>.
\<close>

record 'h HeatmapApi =
  label :: string
  colormap :: string
  show_colorbar :: bool
  density_mode :: bool
  is_collecting :: bool
  finalized :: bool
  heatmap_data :: "'h list"

definition HeatmapApi_new :: "'h HeatmapApi" where
  "HeatmapApi_new =
     \<lparr>label = ''unknown'', colormap = ''plasma'', show_colorbar = True, density_mode = False,
      is_collecting = False, finalized = False, heatmap_data = []\<rparr>"

text \<open>
  Modelled from the spec: \<^verbatim>\<open>HeatmapApi::reset\<close> is declared only. It "clears all
  accumulators and the finalized flag"; the clearing of the accumulators inside the
  missing \<^verbatim>\<open>HeatmapData\<close> is the parameter \<open>clr\<close>.
\<close>

definition reset :: "('h list \<Rightarrow> 'h list) \<Rightarrow> 'h HeatmapApi \<Rightarrow> 'h HeatmapApi" where
  "reset clr h = h\<lparr>heatmap_data := clr (heatmap_data h), finalized := False\<rparr>"

text \<open>
  Modelled from the spec: \<^verbatim>\<open>HeatmapApi::finalize\<close> is declared only. It propagates
  and normalises the accumulated values (the parameter \<open>fin\<close>) and "sets
  \<open>finalized = true\<close>".
\<close>

definition finalize :: "('h list \<Rightarrow> 'h list) \<Rightarrow> 'h HeatmapApi \<Rightarrow> 'h HeatmapApi" where
  "finalize fin h = h\<lparr>heatmap_data := fin (heatmap_data h), finalized := True\<rparr>"

text \<open>Line 134: \<^verbatim>\<open>if (finalized) reset(); is_collecting = true;\<close>\<close>

definition HeatmapApi_enable :: "('h list \<Rightarrow> 'h list) \<Rightarrow> 'h HeatmapApi \<Rightarrow> 'h HeatmapApi" where
  "HeatmapApi_enable clr h =
     (let h' = (if finalized h then reset clr h else h) in h'\<lparr>is_collecting := True\<rparr>)"

definition HeatmapApi_disable :: "'h HeatmapApi \<Rightarrow> 'h HeatmapApi" where
  "HeatmapApi_disable h = h\<lparr>is_collecting := False\<rparr>"


text \<open>Lines 144 and 145.\<close>

definition hasData :: "'h HeatmapApi \<Rightarrow> bool" where
  "hasData h = finalized h"

definition getHeatmapData :: "'h HeatmapApi \<Rightarrow> exception + 'h list" where
  "getHeatmapData h =
     (if \<not> finalized h then Inl (logic_error ''finalize the data first'')
      else Inr (heatmap_data h))"



text \<open>
  A sequence of calls of \<^verbatim>\<open>enable()\<close>, \<^verbatim>\<open>disable()\<close>, \<^verbatim>\<open>reset()\<close> and
  \<^verbatim>\<open>finalize()\<close> on the heatmap engine.
\<close>

datatype heatmap_call = Enable | Disable | Reset | Finalize

fun perform_heatmap_call ::
  "('h list \<Rightarrow> 'h list) \<Rightarrow> ('h list \<Rightarrow> 'h list) \<Rightarrow> heatmap_call \<Rightarrow> 'h HeatmapApi \<Rightarrow> 'h HeatmapApi" where
  "perform_heatmap_call clr fin Enable h = HeatmapApi_enable clr h"
| "perform_heatmap_call clr fin Disable h = HeatmapApi_disable h"
| "perform_heatmap_call clr fin Reset h = reset clr h"
| "perform_heatmap_call clr fin Finalize h = finalize fin h"

fun perform_heatmap_calls ::
  "('h list \<Rightarrow> 'h list) \<Rightarrow> ('h list \<Rightarrow> 'h list) \<Rightarrow> heatmap_call list \<Rightarrow> 'h HeatmapApi \<Rightarrow> 'h HeatmapApi" where
  "perform_heatmap_calls clr fin [] h = h"
| "perform_heatmap_calls clr fin (c # cs) h =
     perform_heatmap_calls clr fin cs (perform_heatmap_call clr fin c h)"

text \<open>
  Line 132: the default argument of \<^verbatim>\<open>initialize\<close>,
  \<^verbatim>\<open>uint32_t subdivision_budget = (1<<23)\<close>.
\<close>

definition default_subdivision_budget :: uint32_t where
  "default_subdivision_budget = push_bit 23 1"

subsection \<open>Notions used in the statements\<close>

text \<open>
  The coordinates the layout is meant for: a pixel column below the width, a pixel row
  below the height, a sample index below the per-pixel sample count.
\<close>

definition valid_coordinate :: "'t DataApi \<Rightarrow> uint32_t \<Rightarrow> uint32_t \<Rightarrow> uint32_t \<Rightarrow> bool" where
  "valid_coordinate d x y c \<longleftrightarrow> x < m_width d \<and> y < m_height d \<and> c < m_sampleCount d"

text \<open>
  The linear index that \<^verbatim>\<open>addPathData\<close> and \<^verbatim>\<open>addIntersectionData\<close> pass to
  \<^verbatim>\<open>m_paths.at\<close>, as the \<^verbatim>\<open>size_t\<close> it is converted to.
\<close>

abbreviation current_id :: "'t DataApi \<Rightarrow> nat" where
  "current_id d \<equiv> unat (get_current_id d (m_x d) (m_y d) (m_currentSampleIdx d))"

text \<open>The exception a call ended with, if any.\<close>

fun thrown :: "'s outcome \<Rightarrow> exception option" where
  "thrown (Returned _) = None"
| "thrown (Thrown e _) = Some e"

subsection \<open>Concrete stores\<close>

text \<open>
  A store for a \<open>2 \<times> 2\<close> image with one sample per pixel, four empty Path Records,
  the cursor on pixel \<open>(1, 0)\<close>, sample \<open>0\<close>, depth \<open>0\<close>, collection enabled.
\<close>

definition example_store :: "int DataApi" where
  "example_store =
     \<lparr>m_paths = [empty_PathData, empty_PathData, empty_PathData, empty_PathData],
      m_height = 2, m_width = 2, m_sampleCount = 1, m_x = 1, m_y = 0,
      m_currentSampleIdx = 0, m_currentDepthIdx = 0, m_isCollecting = True\<rparr>"

text \<open>
  Dimensions whose product \<open>W \<cdot> C = 2 ^ 32\<close> does not fit \<^verbatim>\<open>uint32_t\<close>.
\<close>

definition wide_store :: "int DataApi" where
  "wide_store =
     \<lparr>m_paths = [], m_height = 2, m_width = 65536, m_sampleCount = 65536,
      m_x = 0, m_y = 0, m_currentSampleIdx = 0, m_currentDepthIdx = 0, m_isCollecting = False\<rparr>"


text \<open>A heatmap engine that has been finalized, holding data for two meshes.\<close>

definition example_heatmap :: "nat HeatmapApi" where
  "example_heatmap =
     \<lparr>label = ''unknown'', colormap = ''plasma'', show_colorbar = True, density_mode = False,
      is_collecting = False, finalized = True, heatmap_data = [3, 5]\<rparr>"

section \<open>Properties\<close>

subsection \<open>The linear index\<close>

text \<open>Mixed-radix arithmetic on natural numbers: bound, decoding and encoding.\<close>

lemma layout_bound:
  fixes X Y K W H C :: nat
  assumes "X < W" "Y < H" "K < C"
  shows "Y * (W * C) + X * C + K < H * W * C"
proof -
  have "X * C + K < Suc X * C" using assms by simp
  also have "\<dots> \<le> W * C" using assms by (intro mult_le_mono1) simp
  finally have a: "X * C + K < W * C" .
  then have "Y * (W * C) + X * C + K < Suc Y * (W * C)" by simp
  also have "\<dots> \<le> H * (W * C)" using assms by (intro mult_le_mono1) simp
  finally show ?thesis by (simp add: mult.assoc)
qed

lemma layout_decode:
  fixes X Y K W C :: nat
  assumes "X < W" "K < C"
  defines "n \<equiv> Y * (W * C) + X * C + K"
  shows "n mod C = K" "(n div C) mod W = X" "n div (W * C) = Y"
proof -
  have n: "n = K + C * (X + W * Y)" by (simp add: n_def algebra_simps)
  show "n mod C = K" using assms(2) by (simp add: n)
  have d: "n div C = X + W * Y" using assms(2) by (simp add: n)
  show "(n div C) mod W = X" using assms(1) by (simp add: d)
  have "n div (W * C) = n div C div W" by (simp add: div_mult2_eq mult.commute)
  then show "n div (W * C) = Y" using assms(1) by (simp add: d)
qed

lemma layout_encode:
  fixes n W C :: nat
  shows "(n div (W * C)) * (W * C) + ((n div C) mod W) * C + n mod C = n"
proof -
  have e: "n div (W * C) = n div C div W" by (simp add: div_mult2_eq mult.commute)
  have "(n div C div W) * (W * C) + ((n div C) mod W) * C
             = ((n div C div W) * W + (n div C) mod W) * C"
    by (simp only: add_mult_distrib mult.assoc)
  also have "\<dots> = (n div C) * C" by simp
  finally show ?thesis by (simp add: e)
qed

lemma unat_get_current_id:
  "unat (get_current_id d x y c) =
     (unat y * (unat (m_width d) * unat (m_sampleCount d)) + unat x * unat (m_sampleCount d) + unat c) mod 2 ^ 32"
proof -
  have "get_current_id d x y c =
     of_nat (unat y * (unat (m_width d) * unat (m_sampleCount d)) + unat x * unat (m_sampleCount d) + unat c)"
    by (simp add: get_current_id_def)
  then show ?thesis by (simp only: unat_of_nat) simp
qed


lemma unat_get_current_id_valid:
  assumes "unat (m_height d) * unat (m_width d) * unat (m_sampleCount d) \<le> 2 ^ 32"
    and "valid_coordinate d x y c"
  shows "unat (get_current_id d x y c) =
     unat y * (unat (m_width d) * unat (m_sampleCount d)) + unat x * unat (m_sampleCount d) + unat c"
    and "unat (get_current_id d x y c) < unat (m_height d) * unat (m_width d) * unat (m_sampleCount d)"
proof -
  let ?n = "unat y * (unat (m_width d) * unat (m_sampleCount d)) + unat x * unat (m_sampleCount d) + unat c"
  from assms(2) have v: "unat x < unat (m_width d)" "unat y < unat (m_height d)"
    "unat c < unat (m_sampleCount d)"
    by (simp_all add: valid_coordinate_def word_less_nat_alt)
  then have b: "?n < unat (m_height d) * unat (m_width d) * unat (m_sampleCount d)"
    by (rule layout_bound)
  with assms(1) have "?n < 2 ^ 32" by linarith
  then show e: "unat (get_current_id d x y c) = ?n"
    by (simp only: unat_get_current_id mod_less)
  show "unat (get_current_id d x y c) < unat (m_height d) * unat (m_width d) * unat (m_sampleCount d)"
    using b by (simp only: e)
qed

lemma get_current_id_inj:
  assumes le: "unat (m_height d) * unat (m_width d) * unat (m_sampleCount d) \<le> 2 ^ 32"
    and v: "valid_coordinate d x y c" and v': "valid_coordinate d x' y' c'"
    and eq: "get_current_id d x y c = get_current_id d x' y' c'"
  shows "x = x' \<and> y = y' \<and> c = c'"
proof -
  let ?W = "unat (m_width d)" and ?C = "unat (m_sampleCount d)"
  let ?n = "unat y * (?W * ?C) + unat x * ?C + unat c"
  let ?n' = "unat y' * (?W * ?C) + unat x' * ?C + unat c'"
  from v have b: "unat x < ?W" "unat c < ?C"
    by (simp_all add: valid_coordinate_def word_less_nat_alt)
  from v' have b': "unat x' < ?W" "unat c' < ?C"
    by (simp_all add: valid_coordinate_def word_less_nat_alt)
  have nn: "?n = ?n'"
    using eq unat_get_current_id_valid(1) [OF le v] unat_get_current_id_valid(1) [OF le v']
    by simp
  have "unat c = ?n mod ?C" by (simp only: layout_decode(1) [OF b])
  also have "\<dots> = unat c'" by (simp only: nn layout_decode(1) [OF b'])
  finally have c: "unat c = unat c'" .
  have "unat x = (?n div ?C) mod ?W" by (simp only: layout_decode(2) [OF b])
  also have "\<dots> = unat x'" by (simp only: nn layout_decode(2) [OF b'])
  finally have x: "unat x = unat x'" .
  have "unat y = ?n div (?W * ?C)" by (simp only: layout_decode(3) [OF b])
  also have "\<dots> = unat y'" by (simp only: nn layout_decode(3) [OF b'])
  finally have y: "unat y = unat y'" .
  from x y c show ?thesis by (simp add: word_unat_eq_iff)
qed

lemma get_current_id_surj:
  assumes le: "unat (m_height d) * unat (m_width d) * unat (m_sampleCount d) \<le> 2 ^ 32"
    and n: "n < unat (m_height d) * unat (m_width d) * unat (m_sampleCount d)"
  shows "\<exists>x y c. valid_coordinate d x y c \<and> unat (get_current_id d x y c) = n"
proof -
  let ?H = "unat (m_height d)" and ?W = "unat (m_width d)" and ?C = "unat (m_sampleCount d)"
  let ?Y = "n div (?W * ?C)" and ?X = "(n div ?C) mod ?W" and ?K = "n mod ?C"
  from n have pos: "0 < ?W" "0 < ?C" by (auto intro: Nat.gr0I)
  from n le have small: "n < 2 ^ 32" by linarith
  have K: "?K < ?C" and X: "?X < ?W" using pos by simp_all
  have Y: "?Y < ?H"
    using n pos by (simp add: less_mult_imp_div_less mult.assoc)
  have "?Y \<le> n" "?X \<le> n" "?K \<le> n"
    by (simp_all add: le_trans [OF mod_less_eq_dividend div_le_dividend])
  with small have s: "?Y < 2 ^ 32" "?X < 2 ^ 32" "?K < 2 ^ 32" by linarith+
  define x y c :: uint32_t where "x = of_nat ?X" and "y = of_nat ?Y" and "c = of_nat ?K"
  have u: "unat x = ?X" "unat y = ?Y" "unat c = ?K"
    using s by (simp_all add: x_def y_def c_def unat_of_nat)
  have v: "valid_coordinate d x y c"
    using X Y K by (simp add: valid_coordinate_def word_less_nat_alt u)
  have "unat (get_current_id d x y c) = ?Y * (?W * ?C) + ?X * ?C + ?K"
    using unat_get_current_id_valid(1) [OF le v] by (simp only: u)
  also have "\<dots> = n" by (rule layout_encode)
  finally show ?thesis using v by blast
qed

text \<open>
  C1 (as amended). When \<open>H \<cdot> W \<cdot> C\<close> is at most \<open>2 ^ 32\<close>, so that no valid index wraps
  around: for every valid coordinate the index, read as a number, is
  \<open>y \<cdot> (W \<cdot> C) + x \<cdot> C + c\<close>; \<^verbatim>\<open>get_current_id\<close> is injective on the valid
  coordinates; and its image there is exactly the interval from \<open>0\<close> up to, not
  including, \<open>H \<cdot> W \<cdot> C\<close>.
\<close>

theorem get_current_id_layout:
  assumes "unat (m_height d) * unat (m_width d) * unat (m_sampleCount d) \<le> 2 ^ 32"
  shows "(\<forall>x y c. valid_coordinate d x y c \<longrightarrow>
            unat (get_current_id d x y c) =
              unat y * (unat (m_width d) * unat (m_sampleCount d))
              + unat x * unat (m_sampleCount d) + unat c)
    \<and> inj_on (\<lambda>(x, y, c). get_current_id d x y c) {(x, y, c). valid_coordinate d x y c}
    \<and> (\<lambda>(x, y, c). unat (get_current_id d x y c)) ` {(x, y, c). valid_coordinate d x y c}
        = {0 ..< unat (m_height d) * unat (m_width d) * unat (m_sampleCount d)}"
proof (intro conjI allI impI)
  fix x y c assume "valid_coordinate d x y c"
  with assms show "unat (get_current_id d x y c) =
      unat y * (unat (m_width d) * unat (m_sampleCount d)) + unat x * unat (m_sampleCount d) + unat c"
    by (rule unat_get_current_id_valid(1))
next
  show "inj_on (\<lambda>(x, y, c). get_current_id d x y c) {(x, y, c). valid_coordinate d x y c}"
    by (rule inj_onI) (use get_current_id_inj [OF assms] in fastforce)
next
  show "(\<lambda>(x, y, c). unat (get_current_id d x y c)) ` {(x, y, c). valid_coordinate d x y c}
        = {0 ..< unat (m_height d) * unat (m_width d) * unat (m_sampleCount d)}"
  proof (rule set_eqI, rule iffI)
    fix n assume "n \<in> (\<lambda>(x, y, c). unat (get_current_id d x y c)) ` {(x, y, c). valid_coordinate d x y c}"
    then obtain x y c where "valid_coordinate d x y c" "n = unat (get_current_id d x y c)"
      by auto
    then show "n \<in> {0 ..< unat (m_height d) * unat (m_width d) * unat (m_sampleCount d)}"
      using unat_get_current_id_valid(2) [OF assms] by simp
  next
    fix n assume "n \<in> {0 ..< unat (m_height d) * unat (m_width d) * unat (m_sampleCount d)}"
    then have "n < unat (m_height d) * unat (m_width d) * unat (m_sampleCount d)" by simp
    from get_current_id_surj [OF assms this]
    obtain x y c where "valid_coordinate d x y c" "unat (get_current_id d x y c) = n" by blast
    then show "n \<in> (\<lambda>(x, y, c). unat (get_current_id d x y c)) ` {(x, y, c). valid_coordinate d x y c}"
      by force
  qed
qed

theorem get_current_id_layout_witness:
  "unat (m_height example_store) * unat (m_width example_store) * unat (m_sampleCount example_store)
     \<le> 2 ^ 32
   \<and> unat (get_current_id example_store 1 0 0) = 1
   \<and> inj_on (\<lambda>(x, y, c). get_current_id example_store x y c)
        {(x, y, c). valid_coordinate example_store x y c}
   \<and> (\<lambda>(x, y, c). unat (get_current_id example_store x y c))
        ` {(x, y, c). valid_coordinate example_store x y c} = {0 ..< 4}"
proof -
  have h: "unat (m_height example_store) * unat (m_width example_store)
             * unat (m_sampleCount example_store) \<le> 2 ^ 32"
    by (simp add: example_store_def)
  have v: "valid_coordinate example_store 1 0 0"
    by (simp add: valid_coordinate_def example_store_def)
  have n: "unat (m_height example_store) * unat (m_width example_store)
             * unat (m_sampleCount example_store) = 4"
    by (simp add: example_store_def)
  from get_current_id_layout [OF h] v h show ?thesis
    by (simp only: n) (simp add: example_store_def)
qed

text \<open>
  C1 as stated fails for dimensions that overflow: with \<open>W = C = 65536\<close> the product
  \<open>W \<cdot> C\<close> is \<open>0\<close> in \<^verbatim>\<open>uint32_t\<close>, the valid coordinates \<open>(0, 0, 0)\<close> and
  \<open>(0, 1, 0)\<close> get the same index \<open>0\<close>, and the index of \<open>(0, 1, 0)\<close> is not
  \<open>1 \<cdot> (W \<cdot> C)\<close>.
\<close>

theorem get_current_id_overflow_counterexample:
  "valid_coordinate wide_store 0 0 0 \<and> valid_coordinate wide_store 0 1 0
   \<and> get_current_id wide_store 0 0 0 = get_current_id wide_store 0 1 0
   \<and> unat (get_current_id wide_store 0 1 0)
       \<noteq> unat (1 :: uint32_t) * (unat (m_width wide_store) * unat (m_sampleCount wide_store))
         + unat (0 :: uint32_t) * unat (m_sampleCount wide_store) + unat (0 :: uint32_t)"
  by (simp add: valid_coordinate_def wide_store_def get_current_id_def)


subsection \<open>Recording calls\<close>

text \<open>Facts about the record operations and about sequences of calls.\<close>

lemma PathData_add_neq: "PathData_add s val p \<noteq> p"
proof
  assume "PathData_add s val p = p"
  then have "path_attributes (PathData_add s val p) = path_attributes p" by simp
  then show False by (simp add: PathData_add_def)
qed



lemma intersectionAt_length:
  "length (m_intersections (intersectionAt k f p)) = max (length (m_intersections p)) (Suc (unat k))"
  by (simp add: intersectionAt_def Let_def)



text \<open>
  C2. When \<^verbatim>\<open>isCollecting()\<close> is false, \<^verbatim>\<open>addPathData\<close> and
  \<^verbatim>\<open>addIntersectionData\<close> return without an exception and leave the whole store,
  Path Records and cursor alike, as it was, for every key and every value list.
\<close>

theorem disabled_add_is_noop:
  assumes "\<not> isCollecting d"
  shows "addPathData s val d = Returned d \<and> addIntersectionData s val d = Returned d"
  using assms by (simp add: isCollecting_def addPathData_def addIntersectionData_def)

theorem disabled_add_is_noop_witness:
  "\<not> isCollecting (disable example_store)
   \<and> addPathData ''depth'' (Val1 3) (disable example_store) = Returned (disable example_store)
   \<and> addIntersectionData ''pdf'' (Val2 1 2) (disable example_store) = Returned (disable example_store)"
proof -
  have h: "\<not> isCollecting (disable example_store)"
    by (simp add: isCollecting_def disable_def)
  from disabled_add_is_noop [OF h, of "''depth''" "Val1 3"]
    disabled_add_is_noop [OF h, of "''pdf''" "Val2 1 2"] h
  show ?thesis by simp
qed

text \<open>
  C3. While collecting: when the linear index of the cursor is not below the number of
  Path Records, \<^verbatim>\<open>addPathData\<close> throws \<^verbatim>\<open>std::out_of_range\<close> and leaves the
  store as it was, and so does \<^verbatim>\<open>addIntersectionData\<close> whenever it writes (its
  depth index is set); when the index is below the number of Path Records, neither call
  throws.
\<close>

theorem add_bounds_checked:
  assumes "m_isCollecting d"
  shows "(\<not> current_id d < length (m_paths d) \<longrightarrow>
            addPathData s val d = Thrown out_of_range d
            \<and> (m_currentDepthIdx d \<noteq> - 1 \<longrightarrow> addIntersectionData s val d = Thrown out_of_range d))
       \<and> (current_id d < length (m_paths d) \<longrightarrow>
            thrown (addPathData s val d) = None \<and> thrown (addIntersectionData s val d) = None)"
  using assms by (simp add: addPathData_def addIntersectionData_def vector_at_def Let_def)

theorem add_bounds_checked_witness:
  "m_isCollecting (example_store\<lparr>m_y := 2\<rparr>)
   \<and> \<not> current_id (example_store\<lparr>m_y := 2\<rparr>) < length (m_paths (example_store\<lparr>m_y := 2\<rparr>))
   \<and> addPathData ''depth'' (Val1 3) (example_store\<lparr>m_y := 2\<rparr>)
        = Thrown out_of_range (example_store\<lparr>m_y := 2\<rparr>)
   \<and> addIntersectionData ''pdf'' (Val1 3) (example_store\<lparr>m_y := 2\<rparr>)
        = Thrown out_of_range (example_store\<lparr>m_y := 2\<rparr>)
   \<and> m_isCollecting example_store
   \<and> current_id example_store < length (m_paths example_store)
   \<and> thrown (addPathData ''depth'' (Val1 3) example_store) = None
   \<and> thrown (addIntersectionData ''pdf'' (Val1 3) example_store) = None"
proof -
  let ?d = "example_store\<lparr>m_y := 2\<rparr>"
  have c: "m_isCollecting ?d" "m_isCollecting example_store"
    by (simp_all add: example_store_def)
  have o: "\<not> current_id ?d < length (m_paths ?d)" "m_currentDepthIdx ?d \<noteq> - 1"
    by (simp_all add: example_store_def get_current_id_def)
  have i: "current_id example_store < length (m_paths example_store)"
    by (simp add: example_store_def get_current_id_def)
  from add_bounds_checked [OF c(1), of "''depth''" "Val1 3"]
    add_bounds_checked [OF c(1), of "''pdf''" "Val1 3"]
    add_bounds_checked [OF c(2), of "''depth''" "Val1 3"]
    add_bounds_checked [OF c(2), of "''pdf''" "Val1 3"] c o i
  show ?thesis by simp
qed




text \<open>
  C8. \<^verbatim>\<open>addPathData\<close> does not test the sample cursor against its initial value
  \<^verbatim>\<open>-1U\<close>. While collecting with the sample cursor still at that value (its value
  after construction and \<^verbatim>\<open>enable()\<close>, \<open>2 ^ 32 - 1\<close> as a number), the linear index
  is the wrapped \<open>y \<cdot> (W \<cdot> C) + x \<cdot> C - 1\<close>; the call throws
  \<^verbatim>\<open>std::out_of_range\<close> when that index is not below the number of Path Records,
  writes the addressed Path Record otherwise, and in neither case returns with the store
  unchanged.
\<close>

theorem addPathData_no_sample_sentinel_check:
  assumes "m_isCollecting d" and "m_currentSampleIdx d = - 1"
  shows "unat (m_currentSampleIdx d) = 2 ^ 32 - 1
    \<and> m_currentSampleIdx (enable (DataApi_new h w c x y :: 't DataApi)) = - 1
    \<and> get_current_id d (m_x d) (m_y d) (m_currentSampleIdx d)
        = m_y d * (m_width d * m_sampleCount d) + m_x d * m_sampleCount d - 1
    \<and> (\<not> current_id d < length (m_paths d) \<longrightarrow> addPathData s val d = Thrown out_of_range d)
    \<and> (current_id d < length (m_paths d) \<longrightarrow>
          addPathData s val d =
            Returned (d\<lparr>m_paths := (m_paths d)
              [current_id d := PathData_add s val (m_paths d ! current_id d)]\<rparr>))
    \<and> addPathData s val d \<noteq> Returned d"
proof (intro conjI impI)
  show "unat (m_currentSampleIdx d) = 2 ^ 32 - 1" using assms(2) by (simp add: unsigned_minus_1_eq_mask mask_eq_exp_minus_1)
  show "m_currentSampleIdx (enable (DataApi_new h w c x y :: 't DataApi)) = - 1"
    by (simp add: enable_def DataApi_new_def)
  show "get_current_id d (m_x d) (m_y d) (m_currentSampleIdx d)
        = m_y d * (m_width d * m_sampleCount d) + m_x d * m_sampleCount d - 1"
    using assms(2) by (simp add: get_current_id_def)
  show "addPathData s val d = Thrown out_of_range d" if "\<not> current_id d < length (m_paths d)"
    using that assms(1) by (simp add: addPathData_def vector_at_def Let_def)
  show r: "addPathData s val d =
            Returned (d\<lparr>m_paths := (m_paths d)
              [current_id d := PathData_add s val (m_paths d ! current_id d)]\<rparr>)"
    if "current_id d < length (m_paths d)"
    using that assms(1) by (simp add: addPathData_def vector_at_def Let_def)
  show "addPathData s val d \<noteq> Returned d"
  proof (cases "current_id d < length (m_paths d)")
    case False
    then show ?thesis using assms(1) by (simp add: addPathData_def vector_at_def Let_def)
  next
    case True
    let ?xs = "(m_paths d)[current_id d := PathData_add s val (m_paths d ! current_id d)]"
    have "?xs ! current_id d \<noteq> m_paths d ! current_id d"
      using True by (simp add: PathData_add_neq)
    then have "?xs \<noteq> m_paths d" by metis
    then have "d\<lparr>m_paths := ?xs\<rparr> \<noteq> d"
      by (metis DataApi.select_convs(1) DataApi.surjective DataApi.update_convs(1))
    then show ?thesis by (simp add: r [OF True])
  qed
qed

theorem addPathData_no_sample_sentinel_check_witness:
  "m_isCollecting (example_store\<lparr>m_currentSampleIdx := - 1\<rparr>)
   \<and> m_currentSampleIdx (example_store\<lparr>m_currentSampleIdx := - 1\<rparr>) = - 1
   \<and> current_id (example_store\<lparr>m_currentSampleIdx := - 1\<rparr>) = 0
   \<and> addPathData ''depth'' (Val1 3) (example_store\<lparr>m_currentSampleIdx := - 1\<rparr>)
       = Returned (example_store\<lparr>m_currentSampleIdx := - 1,
           m_paths := [\<lparr>path_attributes = [(''depth'', Val1 3)], m_intersections = []\<rparr>,
                       empty_PathData, empty_PathData, empty_PathData]\<rparr>)
   \<and> m_isCollecting (example_store\<lparr>m_x := 0, m_currentSampleIdx := - 1\<rparr>)
   \<and> m_currentSampleIdx (example_store\<lparr>m_x := 0, m_currentSampleIdx := - 1\<rparr>) = - 1
   \<and> current_id (example_store\<lparr>m_x := 0, m_currentSampleIdx := - 1\<rparr>) = 4294967295
   \<and> addPathData ''depth'' (Val1 3) (example_store\<lparr>m_x := 0, m_currentSampleIdx := - 1\<rparr>)
       = Thrown out_of_range (example_store\<lparr>m_x := 0, m_currentSampleIdx := - 1\<rparr>)"
proof -
  let ?a = "example_store\<lparr>m_currentSampleIdx := - 1\<rparr>"
  let ?b = "example_store\<lparr>m_x := 0, m_currentSampleIdx := - 1\<rparr>"
  have a: "m_isCollecting ?a" "m_currentSampleIdx ?a = - 1"
    and b: "m_isCollecting ?b" "m_currentSampleIdx ?b = - 1"
    by (simp_all add: example_store_def)
  have ia: "current_id ?a = 0" and ib: "current_id ?b = 4294967295"
    by (simp_all add: example_store_def get_current_id_def unsigned_minus_1_eq_mask mask_eq_exp_minus_1)
  have la: "current_id ?a < length (m_paths ?a)" and lb: "\<not> current_id ?b < length (m_paths ?b)"
    by (simp_all only: ia ib) (simp_all add: example_store_def)
  have r: "?a\<lparr>m_paths := (m_paths ?a)
              [current_id ?a := PathData_add ''depth'' (Val1 3) (m_paths ?a ! current_id ?a)]\<rparr>
        = example_store\<lparr>m_currentSampleIdx := - 1,
           m_paths := [\<lparr>path_attributes = [(''depth'', Val1 3)], m_intersections = []\<rparr>,
                       empty_PathData, empty_PathData, empty_PathData]\<rparr>"
    by (simp only: ia) (simp add: example_store_def PathData_add_def empty_PathData_def)
  from addPathData_no_sample_sentinel_check [OF a, of _ _ _ _ _ "''depth''" "Val1 3"] la
  have "addPathData ''depth'' (Val1 3) ?a =
            Returned (?a\<lparr>m_paths := (m_paths ?a)
              [current_id ?a := PathData_add ''depth'' (Val1 3) (m_paths ?a ! current_id ?a)]\<rparr>)"
    by blast
  then have 1: "addPathData ''depth'' (Val1 3) ?a
       = Returned (example_store\<lparr>m_currentSampleIdx := - 1,
           m_paths := [\<lparr>path_attributes = [(''depth'', Val1 3)], m_intersections = []\<rparr>,
                       empty_PathData, empty_PathData, empty_PathData]\<rparr>)"
    by (simp only: r)
  from addPathData_no_sample_sentinel_check [OF b, of _ _ _ _ _ "''depth''" "Val1 3"] lb
  have 2: "addPathData ''depth'' (Val1 3) ?b = Thrown out_of_range ?b"
    by blast
  from a ia 1 b ib 2 show ?thesis by blast
qed

text \<open>
  C9 (as amended). \<^verbatim>\<open>clear()\<close> empties the Path Record array and leaves
  \<^verbatim>\<open>m_height\<close>, \<^verbatim>\<open>m_width\<close> and \<^verbatim>\<open>m_sampleCount\<close> as they were. In every
  store whose array is empty and whose collection is enabled, whatever the cursor, every
  \<^verbatim>\<open>addPathData\<close> call throws \<^verbatim>\<open>std::out_of_range\<close>, and so does every
  \<^verbatim>\<open>addIntersectionData\<close> call whose depth index is set; with the depth index
  unset, \<^verbatim>\<open>addIntersectionData\<close> returns silently. A throwing call leaves the store
  as it was, so the array stays empty until it is allocated again.
\<close>

theorem clear_then_add_throws:
  "m_paths (clear d) = [] \<and> m_height (clear d) = m_height d \<and> m_width (clear d) = m_width d
   \<and> m_sampleCount (clear d) = m_sampleCount d
   \<and> (m_paths d' = [] \<and> m_isCollecting d' \<longrightarrow>
        addPathData s val d' = Thrown out_of_range d'
        \<and> (m_currentDepthIdx d' \<noteq> - 1 \<longrightarrow> addIntersectionData s val d' = Thrown out_of_range d')
        \<and> (m_currentDepthIdx d' = - 1 \<longrightarrow> addIntersectionData s val d' = Returned d'))"
  by (simp add: clear_def addPathData_def addIntersectionData_def vector_at_def Let_def)

theorem clear_then_add_throws_witness:
  "m_paths (clear example_store) = [] \<and> m_isCollecting (clear example_store)
   \<and> m_currentDepthIdx (clear example_store) \<noteq> - 1
   \<and> unat (m_height (clear example_store)) = 2 \<and> unat (m_width (clear example_store)) = 2
   \<and> unat (m_sampleCount (clear example_store)) = 1
   \<and> addPathData ''depth'' (Val1 3) (clear example_store) = Thrown out_of_range (clear example_store)
   \<and> addIntersectionData ''pdf'' (Val1 3) (clear example_store)
       = Thrown out_of_range (clear example_store)"
proof -
  have p: "m_paths (clear example_store) = [] \<and> m_isCollecting (clear example_store)"
    and q: "m_currentDepthIdx (clear example_store) \<noteq> - 1"
    by (simp_all add: clear_def example_store_def)
  from clear_then_add_throws [of example_store "clear example_store" "''depth''" "Val1 3"]
    clear_then_add_throws [of example_store "clear example_store" "''pdf''" "Val1 3"] p q
  show ?thesis by (simp add: example_store_def)
qed

text \<open>
  C9 as stated fails for \<^verbatim>\<open>addIntersectionData\<close>: after \<^verbatim>\<open>clear()\<close>, with
  collection enabled and the depth index unset, the call returns without an exception.
\<close>

theorem clear_then_addIntersectionData_counterexample:
  "m_isCollecting (clear (example_store\<lparr>m_currentDepthIdx := - 1\<rparr>))
   \<and> m_paths (clear (example_store\<lparr>m_currentDepthIdx := - 1\<rparr>)) = []
   \<and> addIntersectionData ''pdf'' (Val1 3) (clear (example_store\<lparr>m_currentDepthIdx := - 1\<rparr>))
       = Returned (clear (example_store\<lparr>m_currentDepthIdx := - 1\<rparr>))
   \<and> thrown (addIntersectionData ''pdf'' (Val1 3) (clear (example_store\<lparr>m_currentDepthIdx := - 1\<rparr>)))
       \<noteq> Some out_of_range"
  by (simp add: clear_def example_store_def addIntersectionData_def)





subsection \<open>The heatmap engine\<close>

text \<open>
  The \<^verbatim>\<open>finalized\<close> flag after a sequence of calls on a new engine: it is on exactly
  when the sequence holds a \<^verbatim>\<open>finalize()\<close> after which \<^verbatim>\<open>reset()\<close> has not
  run, neither called directly nor through \<^verbatim>\<open>enable()\<close>.
\<close>

lemma perform_heatmap_calls_append1:
  "perform_heatmap_calls clr fin (cs @ [c]) h =
     perform_heatmap_call clr fin c (perform_heatmap_calls clr fin cs h)"
  by (induction cs arbitrary: h) simp_all

lemma finalized_perform_heatmap_call:
  "finalized (perform_heatmap_call clr fin c h) \<longleftrightarrow>
     c = Finalize \<or> (c = Disable \<and> finalized h)"
  by (cases c) (simp_all add: HeatmapApi_enable_def HeatmapApi_disable_def reset_def finalize_def Let_def)

lemma finalize_split_snoc:
  "(\<exists>pre post. cs @ [c] = pre @ Finalize # post \<and> Reset \<notin> set post \<and> Enable \<notin> set post)
   \<longleftrightarrow> c = Finalize \<or> (c = Disable \<and>
        (\<exists>pre post. cs = pre @ Finalize # post \<and> Reset \<notin> set post \<and> Enable \<notin> set post))"
  (is "?L \<longleftrightarrow> ?R")
proof
  assume ?L
  then obtain pre post where s: "cs @ [c] = pre @ Finalize # post"
    and n: "Reset \<notin> set post" "Enable \<notin> set post" by blast
  show ?R
  proof (cases post rule: rev_cases)
    case Nil
    with s show ?thesis by simp
  next
    case (snoc post' z)
    with s have "cs = pre @ Finalize # post'" "c = z" by simp_all
    moreover from snoc n have "z \<noteq> Reset" "z \<noteq> Enable" "Reset \<notin> set post'" "Enable \<notin> set post'"
      by auto
    ultimately show ?thesis by (cases z) auto
  qed
next
  assume ?R
  then show ?L
  proof
    assume "c = Finalize"
    then have "cs @ [c] = cs @ Finalize # []" by simp
    then show ?L by (metis empty_iff list.set(1))
  next
    assume "c = Disable \<and>
        (\<exists>pre post. cs = pre @ Finalize # post \<and> Reset \<notin> set post \<and> Enable \<notin> set post)"
    then obtain pre post where c: "c = Disable" and "cs = pre @ Finalize # post"
      and n: "Reset \<notin> set post" "Enable \<notin> set post" by blast
    then have "cs @ [c] = pre @ Finalize # (post @ [Disable])" by simp
    moreover have "Reset \<notin> set (post @ [Disable])" "Enable \<notin> set (post @ [Disable])"
      using n by simp_all
    ultimately show ?L by blast
  qed
qed

lemma finalized_after_calls:
  "finalized (perform_heatmap_calls clr fin cs (HeatmapApi_new :: 'h HeatmapApi)) \<longleftrightarrow>
     (\<exists>pre post. cs = pre @ Finalize # post \<and> Reset \<notin> set post \<and> Enable \<notin> set post)"
proof (induction cs rule: rev_induct)
  case Nil
  show ?case by (simp add: HeatmapApi_new_def)
next
  case (snoc c cs)
  show ?case
    by (simp only: perform_heatmap_calls_append1 finalized_perform_heatmap_call snoc finalize_split_snoc)
qed


text \<open>
  C5. \<^verbatim>\<open>getHeatmapData()\<close> throws \<^verbatim>\<open>std::logic_error\<close> exactly when the
  \<^verbatim>\<open>finalized\<close> flag is off, and throws nothing else; when the flag is on it returns
  the heatmap data and \<^verbatim>\<open>hasData()\<close> is true. The flag is on after
  \<^verbatim>\<open>finalize()\<close> and off after \<^verbatim>\<open>reset()\<close> and after construction; after any
  sequence of calls on a new engine, \<^verbatim>\<open>getHeatmapData()\<close> throws exactly when no
  \<^verbatim>\<open>finalize()\<close> has been performed since \<^verbatim>\<open>reset()\<close> last ran.
\<close>

theorem getHeatmapData_needs_finalize:
  "(getHeatmapData h = Inl (logic_error ''finalize the data first'') \<longleftrightarrow> \<not> finalized h)
   \<and> ((\<exists>e. getHeatmapData h = Inl e) \<longleftrightarrow> \<not> finalized h)
   \<and> (finalized h \<longrightarrow> getHeatmapData h = Inr (heatmap_data h) \<and> hasData h)
   \<and> getHeatmapData (finalize fin h) = Inr (fin (heatmap_data h)) \<and> hasData (finalize fin h)
   \<and> getHeatmapData (reset clr h) = Inl (logic_error ''finalize the data first'')
   \<and> getHeatmapData (HeatmapApi_new :: 'h HeatmapApi) = Inl (logic_error ''finalize the data first'')
   \<and> (getHeatmapData (perform_heatmap_calls clr fin cs (HeatmapApi_new :: 'h HeatmapApi))
         = Inl (logic_error ''finalize the data first'')
       \<longleftrightarrow> \<not> (\<exists>pre post. cs = pre @ Finalize # post \<and> Reset \<notin> set post \<and> Enable \<notin> set post))"
proof -
  have flag: "getHeatmapData g = Inl (logic_error ''finalize the data first'') \<longleftrightarrow> \<not> finalized g"
    for g :: "'h HeatmapApi"
    by (simp add: getHeatmapData_def)
  have "getHeatmapData (perform_heatmap_calls clr fin cs (HeatmapApi_new :: 'h HeatmapApi))
         = Inl (logic_error ''finalize the data first'')
       \<longleftrightarrow> \<not> (\<exists>pre post. cs = pre @ Finalize # post \<and> Reset \<notin> set post \<and> Enable \<notin> set post)"
    by (simp only: flag finalized_after_calls)
  then show ?thesis
    by (simp add: getHeatmapData_def hasData_def finalize_def reset_def HeatmapApi_new_def)
qed

theorem getHeatmapData_needs_finalize_witness:
  "finalized example_heatmap \<and> getHeatmapData example_heatmap = Inr [3, 5] \<and> hasData example_heatmap
   \<and> getHeatmapData (perform_heatmap_calls (map (\<lambda>_. 0)) id [Enable, Finalize, Disable]
        (HeatmapApi_new :: nat HeatmapApi)) \<noteq> Inl (logic_error ''finalize the data first'')
   \<and> getHeatmapData (perform_heatmap_calls (map (\<lambda>_. 0)) id [Finalize, Enable]
        (HeatmapApi_new :: nat HeatmapApi)) = Inl (logic_error ''finalize the data first'')"
proof -
  have f: "finalized example_heatmap" by (simp add: example_heatmap_def)
  from getHeatmapData_needs_finalize [of example_heatmap id id] f
  have "getHeatmapData example_heatmap = Inr (heatmap_data example_heatmap) \<and> hasData example_heatmap"
    by blast
  then have 1: "getHeatmapData example_heatmap = Inr [3, 5] \<and> hasData example_heatmap"
    by (simp add: example_heatmap_def)
  have "[Enable, Finalize, Disable] = [Enable] @ Finalize # [Disable]
        \<and> Reset \<notin> set [Disable] \<and> Enable \<notin> set [Disable]"
    by simp
  then have "\<exists>pre post. [Enable, Finalize, Disable] = pre @ Finalize # post
        \<and> Reset \<notin> set post \<and> Enable \<notin> set post"
    by blast
  with getHeatmapData_needs_finalize
    [of example_heatmap id "map (\<lambda>_. 0)" "[Enable, Finalize, Disable]"]
  have 2: "getHeatmapData (perform_heatmap_calls (map (\<lambda>_. 0)) id [Enable, Finalize, Disable]
        (HeatmapApi_new :: nat HeatmapApi)) \<noteq> Inl (logic_error ''finalize the data first'')"
    by blast
  have "\<not> (\<exists>pre post. [Finalize, Enable] = pre @ Finalize # post
        \<and> Reset \<notin> set post \<and> Enable \<notin> set post)"
    by (auto simp: append_eq_Cons_conv Cons_eq_append_conv)
  with getHeatmapData_needs_finalize
    [of example_heatmap id "map (\<lambda>_. 0)" "[Finalize, Enable]"]
  have 3: "getHeatmapData (perform_heatmap_calls (map (\<lambda>_. 0)) id [Finalize, Enable]
        (HeatmapApi_new :: nat HeatmapApi)) = Inl (logic_error ''finalize the data first'')"
    by blast
  from f 1 2 3 show ?thesis by blast
qed

text \<open>
  C6. \<^verbatim>\<open>enable()\<close> on a finalized engine is \<^verbatim>\<open>reset()\<close> followed by setting
  \<^verbatim>\<open>is_collecting\<close>: the result is collecting, not finalized, and its data are the
  cleared ones. On an engine that is not finalized \<^verbatim>\<open>enable()\<close> only sets
  \<^verbatim>\<open>is_collecting\<close>: the data are untouched and the engine stays not finalized.
\<close>

theorem HeatmapApi_enable_rearms:
  "(finalized h \<longrightarrow>
      HeatmapApi_enable clr h = (reset clr h)\<lparr>is_collecting := True\<rparr>
      \<and> is_collecting (HeatmapApi_enable clr h) \<and> \<not> finalized (HeatmapApi_enable clr h)
      \<and> heatmap_data (HeatmapApi_enable clr h) = clr (heatmap_data h))
   \<and> (\<not> finalized h \<longrightarrow>
      HeatmapApi_enable clr h = h\<lparr>is_collecting := True\<rparr>
      \<and> heatmap_data (HeatmapApi_enable clr h) = heatmap_data h
      \<and> \<not> finalized (HeatmapApi_enable clr h))"
  by (simp add: HeatmapApi_enable_def reset_def Let_def)

theorem HeatmapApi_enable_rearms_witness:
  "finalized example_heatmap
   \<and> HeatmapApi_enable (map (\<lambda>_. 0)) example_heatmap
       = example_heatmap\<lparr>heatmap_data := [0, 0], finalized := False, is_collecting := True\<rparr>
   \<and> \<not> finalized (HeatmapApi_disable (example_heatmap\<lparr>finalized := False\<rparr>))
   \<and> HeatmapApi_enable (map (\<lambda>_. 0)) (HeatmapApi_disable (example_heatmap\<lparr>finalized := False\<rparr>))
       = example_heatmap\<lparr>finalized := False, is_collecting := True\<rparr>"
proof -
  let ?n = "HeatmapApi_disable (example_heatmap\<lparr>finalized := False\<rparr>)"
  have f: "finalized example_heatmap" by (simp add: example_heatmap_def)
  have n: "\<not> finalized ?n" by (simp add: HeatmapApi_disable_def)
  from HeatmapApi_enable_rearms [of example_heatmap "map (\<lambda>_. 0)"] f
  have 1: "HeatmapApi_enable (map (\<lambda>_. 0)) example_heatmap
             = (reset (map (\<lambda>_. 0)) example_heatmap)\<lparr>is_collecting := True\<rparr>" by blast
  from HeatmapApi_enable_rearms [of ?n "map (\<lambda>_. 0)"] n
  have 2: "HeatmapApi_enable (map (\<lambda>_. 0)) ?n = ?n\<lparr>is_collecting := True\<rparr>" by blast
  show ?thesis using f n 1 2
    by (simp add: reset_def HeatmapApi_disable_def example_heatmap_def)
qed


text \<open>
  The budget that \<^verbatim>\<open>initialize\<close> receives when the caller passes none:
  \<^verbatim>\<open>1<<23\<close> is \<open>8388608\<close>.
\<close>

lemma default_subdivision_budget_value: "unat default_subdivision_budget = 8388608"
  by (simp add: default_subdivision_budget_def)


end
